theory Spec2Isabelle
  imports Main
begin

section \<open>Data model\<close>

text \<open>
  Go's \<open>error\<close> interface has one method, \<open>Error() string\<close>; a non-nil error is modelled
  by its message, and a possibly-nil error by \<open>error option\<close> (\<open>None\<close> is \<open>nil\<close>).
  A Go function returning \<open>(v, err)\<close> is a pair: the handlers below test \<open>err != nil\<close>
  exactly as the source does, and a pointer result that may be \<open>nil\<close> is an option.
\<close>

datatype error = Error string

type_synonym Duration = int

type_synonym bytes = string

datatype Context = Context (cancelled: bool) (deadline: "int option")

subsection \<open>Messages of package pb\<close>

text \<open>
  The generated package \<open>pb\<close> of the gateway is not among the sources; each message
  carries the fields that \<open>server.go\<close> reads or writes, and the fields the specification
  lists for a Function.
\<close>

datatype Empty = Empty

record Message =
  Msg :: string

record Function =
  Name :: string
  Image :: string
  Replicas :: nat
  InvokedCount :: nat

record Functions =
  Functions :: "Function list"

record CreateFunctionRequest =
  Service :: string
  Image :: string

record DeleteFunctionRequest =
  FunctionName :: string

record ScaleServiceRequest =
  FunctionName :: string
  Replicas :: nat

record FunctionRequest =
  FunctionName :: string

record InvokeServiceRequest =
  Service :: string
  Input :: bytes

subsection \<open>Configuration and the gateway struct\<close>

record DeployHandlerConfig =
  EnableHttpProbe :: bool
  ImagePullPolicy :: string
  FunctionNamespace :: string
  FxWatcherPort :: int
  SecretMountPath :: string

record FxGatewayConfig =
  TCPPort :: int
  FunctionNamespace :: string
  FxWatcherPort :: int
  InvokeTimeout :: Duration
  ReadTimeout :: Duration
  WriteTimeout :: Duration
  IdleTimeout :: Duration
  EnableHttpProbe :: bool
  ImagePullPolicy :: string
  SecretMountPath :: string
  PrometheusHost :: string
  PrometheusPort :: int

text \<open>
  \<open>*kubernetes.Clientset\<close>, \<open>*http.Server\<close> and \<open>*grpc.Server\<close> are handles on
  objects the gateway never looks into. \<open>metrics.MetricOptions\<close> is passed by value to the
  exporter and to the watcher and still names the same series, so the struct field is a
  reference into the store of metric series, not the series themselves.
\<close>

datatype Clientset = Clientset string

datatype Server = Server string

datatype MetricOptions = MetricOptions nat

record PrometheusQuery =
  Host :: string
  Port :: int

record FxGateway =
  conf :: FxGatewayConfig
  httpServer :: "Server option"
  grpcServer :: "Server option"
  kubeClient :: Clientset
  metricsOptions :: MetricOptions
  metricsFetcher :: PrometheusQuery

subsection \<open>The metrics registry\<close>

record Series =
  invocation_counter :: "string \<times> string \<Rightarrow> nat"
  duration_histogram :: "string \<Rightarrow> Duration list"
  replica_gauge :: "string \<Rightarrow> nat"

type_synonym registry = "MetricOptions \<Rightarrow> Series"

text \<open>
  Modelled from the spec: \<open>metrics.MetricOptions.Notify\<close> (package \<open>metrics\<close> is not among
  the sources). The synchronous notifier increments the per-function invocation counter
  with an outcome label and records the elapsed duration in the histogram of that function.
\<close>

definition Notify :: "MetricOptions \<Rightarrow> string \<Rightarrow> Duration \<Rightarrow> string \<Rightarrow> registry \<Rightarrow> registry" where
  "Notify m name d label reg =
     reg(m := (reg m)\<lparr>
       invocation_counter :=
         (invocation_counter (reg m))((name, label) := invocation_counter (reg m) (name, label) + 1),
       duration_histogram :=
         (duration_histogram (reg m))(name := duration_histogram (reg m) name @ [d])\<rparr>)"

subsection \<open>The world a handler runs in\<close>

text \<open>
  A handler has the receiver \<open>f *FxGateway\<close> (the field \<open>gateway\<close> of the world), the
  registry its \<open>metricsOptions\<close> refers to, and everything outside the process: the
  orchestration backend, the sidecars, the metrics backend and the clock, of type \<open>'b\<close>.
\<close>

record 'b world =
  gateway :: FxGateway
  metrics :: registry
  backend :: 'b

text \<open>
  The packages \<open>service\<close> and \<open>time\<close> and the query fetcher are collaborators outside the
  sources. Each is a parameter: a function of its arguments and of the outside state,
  returning what the Go function returns and the outside state after the call. None of
  them is handed the registry.
\<close>

record 'b collaborators =
  time_Now :: "'b \<Rightarrow> int"
  service_Invoke :: "string \<Rightarrow> string \<Rightarrow> int \<Rightarrow> bytes \<Rightarrow> Duration \<Rightarrow> 'b \<Rightarrow> (string \<times> error option) \<times> 'b"
  service_List :: "string \<Rightarrow> Clientset \<Rightarrow> 'b \<Rightarrow> (Function list \<times> error option) \<times> 'b"
  service_Deploy :: "CreateFunctionRequest \<Rightarrow> Clientset \<Rightarrow> DeployHandlerConfig \<Rightarrow> 'b \<Rightarrow> error option \<times> 'b"
  service_Delete :: "string \<Rightarrow> string \<Rightarrow> Clientset \<Rightarrow> 'b \<Rightarrow> error option \<times> 'b"
  service_Update :: "string \<Rightarrow> CreateFunctionRequest \<Rightarrow> Clientset \<Rightarrow> string \<Rightarrow> 'b \<Rightarrow> error option \<times> 'b"
  service_GetMeta :: "string \<Rightarrow> string \<Rightarrow> Clientset \<Rightarrow> 'b \<Rightarrow> (Function option \<times> error option) \<times> 'b"
  service_GetLog :: "string \<Rightarrow> string \<Rightarrow> Clientset \<Rightarrow> 'b \<Rightarrow> (string \<times> error option) \<times> 'b"
  service_ReplicaUpdate :: "string \<Rightarrow> ScaleServiceRequest \<Rightarrow> Clientset \<Rightarrow> 'b \<Rightarrow> error option \<times> 'b"
  service_Info :: "Clientset \<Rightarrow> 'b \<Rightarrow> (string \<times> error option) \<times> 'b"
  prometheus_Fetch :: "PrometheusQuery \<Rightarrow> string \<Rightarrow> 'b \<Rightarrow> (nat \<times> error option) \<times> 'b"

subsection \<open>Metrics enrichment\<close>

text \<open>
  Modelled from the spec: \<open>metrics.AddMetricsFunction\<close> and \<open>metrics.AddMetricsFunctions\<close>
  (package \<open>metrics\<close> is not among the sources). Enrichment is best effort: the live
  invocation count of a function is fetched from the metrics backend and written into the
  function; when the fetch fails the function is returned without enrichment. Neither
  returns an error.
\<close>

definition mixIn :: "'b collaborators \<Rightarrow> Function \<Rightarrow> PrometheusQuery \<Rightarrow> 'b \<Rightarrow> Function \<times> 'b" where
  "mixIn E fn q b =
     (let ((n, fetchErr), b') = prometheus_Fetch E q (Name fn) b
      in if fetchErr \<noteq> None then (fn, b') else (fn\<lparr>InvokedCount := n\<rparr>, b'))"

fun AddMetricsFunction :: "'b collaborators \<Rightarrow> Function option \<Rightarrow> PrometheusQuery \<Rightarrow> 'b \<Rightarrow> Function option \<times> 'b" where
  "AddMetricsFunction E None q b = (None, b)"
| "AddMetricsFunction E (Some fn) q b = (let (fn', b') = mixIn E fn q b in (Some fn', b'))"

fun AddMetricsFunctions :: "'b collaborators \<Rightarrow> Function list \<Rightarrow> PrometheusQuery \<Rightarrow> 'b \<Rightarrow> Function list \<times> 'b" where
  "AddMetricsFunctions E [] q b = ([], b)"
| "AddMetricsFunctions E (fn # functions) q b =
     (let (fn', b') = mixIn E fn q b;
          (fns, b'') = AddMetricsFunctions E functions q b'
      in (fn' # fns, b''))"

section \<open>The gRPC handlers of server.go\<close>

definition NewFxGateway :: "MetricOptions \<Rightarrow> FxGatewayConfig \<Rightarrow> Clientset \<Rightarrow> FxGateway" where
  \<comment> \<open>the first argument is what \<open>metrics.BuildMetricsOptions()\<close> returned\<close>
  "NewFxGateway built c k =
     \<lparr>conf = c, httpServer = None, grpcServer = None, kubeClient = k,
      metricsOptions = built,
      metricsFetcher = \<lparr>Host = PrometheusHost c, Port = PrometheusPort c\<rparr>\<rparr>"

definition Invoke ::
  "'b collaborators \<Rightarrow> Context \<Rightarrow> InvokeServiceRequest \<Rightarrow> 'b world \<Rightarrow> (Message option \<times> error option) \<times> 'b world" where
  \<comment> \<open>\<open>elapsed\<close> is the source's variable \<open>end\<close>, the value of \<open>time.Since(start)\<close>\<close>
  "Invoke E c s w =
     (let f = gateway w;
          start = time_Now E (backend w);
          ((output, err), b') =
            service_Invoke E (InvokeServiceRequest.Service s) (FunctionNamespace (conf f))
              (FxWatcherPort (conf f)) (Input s) (InvokeTimeout (conf f)) (backend w);
          elapsed = time_Now E b' - start
      in if err \<noteq> None then ((None, err), w\<lparr>backend := b'\<rparr>)
         else ((Some \<lparr>Msg = output\<rparr>, None),
               w\<lparr>backend := b',
                 metrics := Notify (metricsOptions f) (InvokeServiceRequest.Service s) elapsed ''OK'' (metrics w)\<rparr>))"

definition List ::
  "'b collaborators \<Rightarrow> Context \<Rightarrow> Empty \<Rightarrow> 'b world \<Rightarrow> (Functions option \<times> error option) \<times> 'b world" where
  "List E c s w =
     (let f = gateway w;
          ((functions, err), b') = service_List E (FunctionNamespace (conf f)) (kubeClient f) (backend w)
      in if err \<noteq> None then ((None, err), w\<lparr>backend := b'\<rparr>)
         else (let (fns, b'') = AddMetricsFunctions E functions (metricsFetcher f) b'
               in ((Some \<lparr>Functions = fns\<rparr>, None), w\<lparr>backend := b''\<rparr>)))"

definition Deploy ::
  "'b collaborators \<Rightarrow> Context \<Rightarrow> CreateFunctionRequest \<Rightarrow> 'b world \<Rightarrow> (Message option \<times> error option) \<times> 'b world" where
  "Deploy E c s w =
     (let f = gateway w;
          deployConfig =
            \<lparr>DeployHandlerConfig.EnableHttpProbe = EnableHttpProbe (conf f),
             DeployHandlerConfig.ImagePullPolicy = ImagePullPolicy (conf f),
             DeployHandlerConfig.FunctionNamespace = FunctionNamespace (conf f),
             DeployHandlerConfig.FxWatcherPort = FxWatcherPort (conf f),
             DeployHandlerConfig.SecretMountPath = SecretMountPath (conf f)\<rparr>;
          (err, b') = service_Deploy E s (kubeClient f) deployConfig (backend w)
      in if err \<noteq> None then ((None, err), w\<lparr>backend := b'\<rparr>)
         else ((Some \<lparr>Msg = ''OK''\<rparr>, None), w\<lparr>backend := b'\<rparr>))"

definition Delete ::
  "'b collaborators \<Rightarrow> Context \<Rightarrow> DeleteFunctionRequest \<Rightarrow> 'b world \<Rightarrow> (Message option \<times> error option) \<times> 'b world" where
  "Delete E c s w =
     (let f = gateway w;
          (err, b') =
            service_Delete E (DeleteFunctionRequest.FunctionName s) (FunctionNamespace (conf f))
              (kubeClient f) (backend w)
      in if err \<noteq> None then ((None, err), w\<lparr>backend := b'\<rparr>)
         else ((Some \<lparr>Msg = ''OK''\<rparr>, None), w\<lparr>backend := b'\<rparr>))"

definition Update ::
  "'b collaborators \<Rightarrow> Context \<Rightarrow> CreateFunctionRequest \<Rightarrow> 'b world \<Rightarrow> (Message option \<times> error option) \<times> 'b world" where
  "Update E c s w =
     (let f = gateway w;
          (err, b') =
            service_Update E (FunctionNamespace (conf f)) s (kubeClient f) (SecretMountPath (conf f))
              (backend w)
      in if err \<noteq> None then ((None, err), w\<lparr>backend := b'\<rparr>)
         else ((Some \<lparr>Msg = ''OK''\<rparr>, None), w\<lparr>backend := b'\<rparr>))"

definition GetMeta ::
  "'b collaborators \<Rightarrow> Context \<Rightarrow> FunctionRequest \<Rightarrow> 'b world \<Rightarrow> (Function option \<times> error option) \<times> 'b world" where
  "GetMeta E c s w =
     (let f = gateway w;
          ((fn, err), b') =
            service_GetMeta E (FunctionRequest.FunctionName s) (FunctionNamespace (conf f))
              (kubeClient f) (backend w)
      in if err \<noteq> None then ((None, err), w\<lparr>backend := b'\<rparr>)
         else (let (fn', b'') = AddMetricsFunction E fn (metricsFetcher f) b'
               in ((fn', None), w\<lparr>backend := b''\<rparr>)))"

definition GetLog ::
  "'b collaborators \<Rightarrow> Context \<Rightarrow> FunctionRequest \<Rightarrow> 'b world \<Rightarrow> (Message option \<times> error option) \<times> 'b world" where
  "GetLog E c s w =
     (let f = gateway w;
          ((log, err), b') =
            service_GetLog E (FunctionRequest.FunctionName s) (FunctionNamespace (conf f))
              (kubeClient f) (backend w)
      in if err \<noteq> None then ((None, err), w\<lparr>backend := b'\<rparr>)
         else ((Some \<lparr>Msg = log\<rparr>, None), w\<lparr>backend := b'\<rparr>))"

definition ReplicaUpdate ::
  "'b collaborators \<Rightarrow> Context \<Rightarrow> ScaleServiceRequest \<Rightarrow> 'b world \<Rightarrow> (Message option \<times> error option) \<times> 'b world" where
  "ReplicaUpdate E c s w =
     (let f = gateway w;
          (err, b') = service_ReplicaUpdate E (FunctionNamespace (conf f)) s (kubeClient f) (backend w)
      in if err \<noteq> None then ((None, err), w\<lparr>backend := b'\<rparr>)
         else ((Some \<lparr>Msg = ''OK''\<rparr>, None), w\<lparr>backend := b'\<rparr>))"

definition Info ::
  "'b collaborators \<Rightarrow> Context \<Rightarrow> Empty \<Rightarrow> 'b world \<Rightarrow> (Message option \<times> error option) \<times> 'b world" where
  "Info E c s w =
     (let f = gateway w;
          ((info, err), b') = service_Info E (kubeClient f) (backend w)
      in if err \<noteq> None then ((None, err), w\<lparr>backend := b'\<rparr>)
         else ((Some \<lparr>Msg = info\<rparr>, None), w\<lparr>backend := b'\<rparr>))"

definition HealthCheck ::
  "'b collaborators \<Rightarrow> Context \<Rightarrow> Empty \<Rightarrow> 'b world \<Rightarrow> (Message option \<times> error option) \<times> 'b world" where
  "HealthCheck E c s w = ((Some \<lparr>Msg = ''OK''\<rparr>, None), w)"

section \<open>Start: the demultiplexer and the serve loops\<close>

subsection \<open>Connections, matchers and the multiplexer\<close>

text \<open>
  Modelled from the spec: package \<open>cmux\<close> (not among the sources). A new connection is
  classified by the bytes it sends first, which are peeked and not consumed; when it opens
  with the HTTP/2 client preface, the header fields of its first request are part of what
  the matcher sees. Match A recognises the RPC transport by its content-type header
  convention, Match B the HTTP/1.x text protocol by the method that opens its request
  line. The multiplexer keeps its matchers in registration order, hands a connection to
  the listener of the first matcher that accepts it, and closes a connection that no
  matcher accepts.
\<close>

record Conn =
  leading :: bytes
  header_fields :: "(string \<times> string) list"

definition hasPrefix :: "string \<Rightarrow> string \<Rightarrow> bool" where
  "hasPrefix s p = (take (length p) s = p)"

definition http2_preface :: bytes where
  "http2_preface =
     ''PRI * HTTP/2.0'' @ [CHR 0x0D, CHR 0x0A, CHR 0x0D, CHR 0x0A] @ ''SM'' @ [CHR 0x0D, CHR 0x0A, CHR 0x0D, CHR 0x0A]"

definition HTTP2MatchHeaderFieldPrefixSendSettings :: "string \<Rightarrow> string \<Rightarrow> Conn \<Rightarrow> bool" where
  "HTTP2MatchHeaderFieldPrefixSendSettings name valuePrefix c =
     (hasPrefix (leading c) http2_preface \<and>
      (case map_of (header_fields c) name of None \<Rightarrow> False | Some v \<Rightarrow> hasPrefix v valuePrefix))"

definition defaultHTTPMethods :: "string list" where
  "defaultHTTPMethods =
     [''OPTIONS'', ''GET'', ''HEAD'', ''POST'', ''PUT'', ''DELETE'', ''TRACE'', ''CONNECT'']"

definition HTTP1Fast :: "Conn \<Rightarrow> bool" where
  "HTTP1Fast c = list_ex (hasPrefix (leading c)) defaultHTTPMethods"

record CMux =
  sls :: "((Conn \<Rightarrow> bool) \<times> nat) list"

definition cmux_New :: CMux where
  "cmux_New = \<lparr>sls = []\<rparr>"

definition cmux_Match :: "(Conn \<Rightarrow> bool) \<Rightarrow> CMux \<Rightarrow> nat \<times> CMux" where
  \<comment> \<open>registers the matcher behind the earlier ones and returns its new listener\<close>
  "cmux_Match matcher m = (length (sls m), m\<lparr>sls := sls m @ [(matcher, length (sls m))]\<rparr>)"

fun first_match :: "((Conn \<Rightarrow> bool) \<times> nat) list \<Rightarrow> Conn \<Rightarrow> nat option" where
  "first_match [] c = None"
| "first_match ((matcher, l) # rest) c = (if matcher c then Some l else first_match rest c)"

definition cmux_route :: "CMux \<Rightarrow> Conn \<Rightarrow> nat option" where
  \<comment> \<open>the listener a new connection is handed to; \<open>None\<close>: the connection is closed\<close>
  "cmux_route m c = first_match (sls m) c"

subsection \<open>Start\<close>

text \<open>
  What ends \<open>Start\<close>: \<open>panic(err)\<close>, \<open>log.Fatalln\<close> (which exits the process with
  status 1 and never returns), or a \<open>return\<close> of an error that may be nil.
\<close>

datatype stop = Panicked error | LogFatal string | Returned "error option"

record Serving =
  tcpMux :: CMux
  grpcL :: nat
  httpL :: nat

text \<open>
  The functions \<open>Start\<close> calls outside the sources: \<open>net.Listen\<close>, the exporter of package
  \<open>metrics\<close>, and \<open>prepareGRPC\<close> and \<open>prepareHTTP\<close> of package \<open>main\<close>.
\<close>

record 'b startup =
  exporter_Start :: "MetricOptions \<Rightarrow> string \<Rightarrow> Clientset \<Rightarrow> Duration \<Rightarrow> 'b \<Rightarrow> 'b"
  net_Listen :: "string \<Rightarrow> string \<Rightarrow> 'b \<Rightarrow> error option \<times> 'b"
  prepareGRPC :: "FxGateway \<Rightarrow> 'b \<Rightarrow> (Server option \<times> error option) \<times> 'b"
  prepareHTTP ::
    "string \<Rightarrow> string \<Rightarrow> int \<Rightarrow> Duration \<Rightarrow> Duration \<Rightarrow> Duration \<Rightarrow> Duration \<Rightarrow> 'b \<Rightarrow> (Server option \<times> error option) \<times> 'b"

fun digits :: "nat \<Rightarrow> string" where
  "digits n = (if n < 10 then [char_of (48 + n)] else digits (n div 10) @ [char_of (48 + n mod 10)])"

declare digits.simps [simp del]

definition Sprintf_d :: "int \<Rightarrow> string" where
  \<comment> \<open>the verb \<open>%d\<close> of \<open>fmt.Sprintf\<close>\<close>
  "Sprintf_d i = (if i < 0 then CHR ''-'' # digits (nat (- i)) else digits (nat i))"

definition Second :: Duration where
  "Second = 1000000000"

definition Start_mux :: "nat \<times> nat \<times> CMux" where
  \<comment> \<open>the connection dispatcher rules, in the order \<open>Start\<close> registers them;
      \<open>MatchWithWriters\<close> registers its matcher as \<open>Match\<close> does\<close>
  "Start_mux =
     (let tcpMux = cmux_New;
          (grpcL, tcpMux) =
            cmux_Match (HTTP2MatchHeaderFieldPrefixSendSettings ''content-type'' ''application/grpc'') tcpMux;
          (httpL, tcpMux) = cmux_Match HTTP1Fast tcpMux
      in (grpcL, httpL, tcpMux))"

definition Start :: "'b startup \<Rightarrow> 'b world \<Rightarrow> (stop + Serving) \<times> 'b world" where
  \<comment> \<open>\<open>Start\<close> up to the point where the three serve loops run\<close>
  "Start S w =
     (let f = gateway w;
          servicePollInterval = Second * 5;
          b0 = exporter_Start S (metricsOptions f) (FunctionNamespace (conf f)) (kubeClient f)
                 servicePollInterval (backend w);
          (err, b1) = net_Listen S ''tcp'' (CHR '':'' # Sprintf_d (TCPPort (conf f))) b0
      in if err \<noteq> None then (Inl (Panicked (the err)), w\<lparr>backend := b1\<rparr>)
         else
          (let (grpcL, httpL, tcpMux) = Start_mux;
               ((g, err), b2) = prepareGRPC S f b1;
               f = f\<lparr>grpcServer := g\<rparr>
           in if err \<noteq> None
              then (Inl (LogFatal ''Unable to initialize gRPC server instance''),
                    w\<lparr>gateway := f, backend := b2\<rparr>)
              else
               (let ((h, err), b3) =
                      prepareHTTP S (''localhost:'' @ Sprintf_d (TCPPort (conf f)))
                        (FunctionNamespace (conf f)) (FxWatcherPort (conf f)) (InvokeTimeout (conf f))
                        (ReadTimeout (conf f)) (WriteTimeout (conf f)) (IdleTimeout (conf f)) b2;
                    f = f\<lparr>httpServer := h\<rparr>
                in if err \<noteq> None
                   then (Inl (LogFatal ''Unable to initialize HTTP server instance''),
                         w\<lparr>gateway := f, backend := b3\<rparr>)
                   else (Inr \<lparr>tcpMux = tcpMux, grpcL = grpcL, httpL = httpL\<rparr>,
                         w\<lparr>gateway := f, backend := b3\<rparr>))))"

text \<open>
  The three serve loops run concurrently: \<open>grpcServer.Serve\<close> and \<open>httpServer.Serve\<close>
  each in a goroutine of its own, \<open>tcpMux.Serve\<close> as the value \<open>Start\<close> returns. Each loop
  is modelled by what the code around it does at the moment its call returns:
  \<open>None\<close> when the process goes on running.
\<close>

datatype serve_loop = grpcServer_Serve | httpServer_Serve | tcpMux_Serve

fun serve_returns :: "serve_loop \<Rightarrow> error option \<Rightarrow> stop option" where
  "serve_returns grpcServer_Serve err =
     (if err \<noteq> None then Some (LogFatal ''Unable to start external gRPC server'') else None)"
| "serve_returns httpServer_Serve err =
     (if err \<noteq> None then Some (LogFatal ''Unable to start HTTP server'') else None)"
| "serve_returns tcpMux_Serve err = Some (Returned err)"

subsection \<open>The process\<close>

text \<open>
  \<open>main\<close> calls \<open>s.Start()\<close> as its last statement and drops the value: when \<open>Start\<close>
  returns, \<open>main\<close> returns and the process exits with status 0; a panic that nothing
  recovers ends it with status 2, \<open>log.Fatalln\<close> with status 1.
\<close>

datatype process = Running | Exited nat

fun main_after_Start :: "stop \<Rightarrow> process" where
  "main_after_Start (Panicked e) = Exited 2"
| "main_after_Start (LogFatal m) = Exited 1"
| "main_after_Start (Returned err) = Exited 0"

fun serve :: "process \<Rightarrow> (serve_loop \<times> error option) list \<Rightarrow> process" where
  "serve p [] = p"
| "serve (Exited n) evs = Exited n"
| "serve Running ((l, err) # evs) =
     (case serve_returns l err of
        None \<Rightarrow> serve Running evs
      | Some st \<Rightarrow> main_after_Start st)"

definition run_Start :: "'b startup \<Rightarrow> 'b world \<Rightarrow> (serve_loop \<times> error option) list \<Rightarrow> process" where
  \<comment> \<open>\<open>s.Start()\<close> in \<open>main\<close>, with the serve calls returning in the given order\<close>
  "run_Start S w evs =
     (case fst (Start S w) of
        Inl st \<Rightarrow> main_after_Start st
      | Inr sv \<Rightarrow> serve Running evs)"

section \<open>Requests served one after another\<close>

datatype request =
    InvokeReq Context InvokeServiceRequest
  | ListReq Context Empty
  | DeployReq Context CreateFunctionRequest
  | DeleteReq Context DeleteFunctionRequest
  | UpdateReq Context CreateFunctionRequest
  | GetMetaReq Context FunctionRequest
  | GetLogReq Context FunctionRequest
  | ReplicaUpdateReq Context ScaleServiceRequest
  | InfoReq Context Empty
  | HealthCheckReq Context Empty

fun handle :: "'b collaborators \<Rightarrow> request \<Rightarrow> 'b world \<Rightarrow> 'b world" where
  "handle E (InvokeReq c s) w = snd (Invoke E c s w)"
| "handle E (ListReq c s) w = snd (List E c s w)"
| "handle E (DeployReq c s) w = snd (Deploy E c s w)"
| "handle E (DeleteReq c s) w = snd (Delete E c s w)"
| "handle E (UpdateReq c s) w = snd (Update E c s w)"
| "handle E (GetMetaReq c s) w = snd (GetMeta E c s w)"
| "handle E (GetLogReq c s) w = snd (GetLog E c s w)"
| "handle E (ReplicaUpdateReq c s) w = snd (ReplicaUpdate E c s w)"
| "handle E (InfoReq c s) w = snd (Info E c s w)"
| "handle E (HealthCheckReq c s) w = snd (HealthCheck E c s w)"

fun handle_all :: "'b collaborators \<Rightarrow> request list \<Rightarrow> 'b world \<Rightarrow> 'b world" where
  "handle_all E [] w = w"
| "handle_all E (r # rs) w = handle_all E rs (handle E r w)"

section \<open>Vocabulary of the properties\<close>

definition exactly_one :: "'a option \<times> error option \<Rightarrow> bool" where
  \<comment> \<open>of a handler's reply and error, one is nil and the other is not\<close>
  "exactly_one r = ((fst r = None) \<noteq> (snd r = None))"

definition without_metrics :: "Function \<Rightarrow> Function" where
  \<comment> \<open>a function as the orchestration backend knows it, the enrichment blanked\<close>
  "without_metrics fn = fn\<lparr>InvokedCount := 0\<rparr>"

section \<open>A small deployment\<close>

text \<open>
  One function, \<open>echo\<close>, whose sidecar answers with its input after 7 ms; the outside
  state is the reading of the clock in nanoseconds. The metrics backend has no series for
  \<open>echo\<close> and answers every other query.
\<close>

definition conf0 :: FxGatewayConfig where
  "conf0 =
     \<lparr>TCPPort = 10000, FunctionNamespace = ''openfx-fn'', FxWatcherPort = 50051,
      InvokeTimeout = 60 * Second, ReadTimeout = 65 * Second, WriteTimeout = 65 * Second,
      IdleTimeout = 120 * Second, EnableHttpProbe = False, ImagePullPolicy = ''Always'',
      SecretMountPath = ''/var/openfx/secrets'', PrometheusHost = ''prometheus'',
      PrometheusPort = 9090\<rparr>"

definition fn_echo :: Function where
  "fn_echo = \<lparr>Name = ''echo'', Image = ''echo:v1'', Replicas = 1, InvokedCount = 0\<rparr>"

definition fn_resize :: Function where
  "fn_resize = \<lparr>Name = ''resize'', Image = ''resize:v2'', Replicas = 3, InvokedCount = 0\<rparr>"

definition no_series :: Series where
  "no_series =
     \<lparr>invocation_counter = (\<lambda>_. 0), duration_histogram = (\<lambda>_. []), replica_gauge = (\<lambda>_. 0)\<rparr>"

definition world0 :: "nat world" where
  "world0 =
     \<lparr>gateway = NewFxGateway (MetricOptions 0) conf0 (Clientset ''https://10.96.0.1:443''),
      metrics = (\<lambda>_. no_series),
      backend = 0\<rparr>"

definition cluster_up :: "nat collaborators" where
  "cluster_up =
     \<lparr>time_Now = int,
      service_Invoke = (\<lambda>name ns port input timeout b. ((input, None), b + 7000000)),
      service_List = (\<lambda>ns k b. (([fn_echo, fn_resize], None), b + 1)),
      service_Deploy = (\<lambda>s k cfg b. (None, b + 1)),
      service_Delete = (\<lambda>name ns k b. (None, b + 1)),
      service_Update = (\<lambda>ns s k path b. (None, b + 1)),
      service_GetMeta = (\<lambda>name ns k b. ((Some fn_echo, None), b + 1)),
      service_GetLog = (\<lambda>name ns k b. ((''hi'', None), b + 1)),
      service_ReplicaUpdate = (\<lambda>ns s k b. (None, b + 1)),
      service_Info = (\<lambda>k b. ((''openfx 0.1.0'', None), b + 1)),
      prometheus_Fetch = (\<lambda>q name b.
         if name = ''echo'' then ((0, Some (Error ''no data'')), b + 1) else ((42, None), b + 1))\<rparr>"

definition cluster_down :: "nat collaborators" where
  "cluster_down =
     \<lparr>time_Now = int,
      service_Invoke = (\<lambda>name ns port input timeout b.
         (([], Some (Error ''context deadline exceeded'')), b + nat timeout)),
      service_List = (\<lambda>ns k b. (([], Some (Error ''backend unavailable'')), b + 1)),
      service_Deploy = (\<lambda>s k cfg b. (Some (Error ''backend unavailable''), b + 1)),
      service_Delete = (\<lambda>name ns k b. (Some (Error ''not found''), b + 1)),
      service_Update = (\<lambda>ns s k path b. (Some (Error ''not found''), b + 1)),
      service_GetMeta = (\<lambda>name ns k b. ((None, Some (Error ''not found'')), b + 1)),
      service_GetLog = (\<lambda>name ns k b. (([], Some (Error ''not found'')), b + 1)),
      service_ReplicaUpdate = (\<lambda>ns s k b. (Some (Error ''not found''), b + 1)),
      service_Info = (\<lambda>k b. (([], Some (Error ''backend unavailable'')), b + 1)),
      prometheus_Fetch = (\<lambda>q name b. ((0, Some (Error ''connection refused'')), b + 1))\<rparr>"


definition echo_hi :: InvokeServiceRequest where
  "echo_hi = \<lparr>Service = ''echo'', Input = ''hi''\<rparr>"

definition deploy_echo :: CreateFunctionRequest where
  "deploy_echo = \<lparr>CreateFunctionRequest.Service = ''echo'', CreateFunctionRequest.Image = ''echo:v1''\<rparr>"

definition delete_echo :: DeleteFunctionRequest where
  "delete_echo = \<lparr>DeleteFunctionRequest.FunctionName = ''echo''\<rparr>"

definition scale_echo :: ScaleServiceRequest where
  "scale_echo = \<lparr>ScaleServiceRequest.FunctionName = ''echo'', ScaleServiceRequest.Replicas = 3\<rparr>"

definition get_echo :: FunctionRequest where
  "get_echo = \<lparr>FunctionRequest.FunctionName = ''echo''\<rparr>"

definition ctx0 :: Context where
  "ctx0 = Context False None"

definition port_free :: "nat startup" where
  "port_free =
     \<lparr>exporter_Start = (\<lambda>m ns k interval b. b),
      net_Listen = (\<lambda>network address b. (None, b)),
      prepareGRPC = (\<lambda>f b. ((Some (Server ''grpc''), None), b)),
      prepareHTTP = (\<lambda>address ns port t1 t2 t3 t4 b. ((Some (Server ''http''), None), b))\<rparr>"

definition port_taken :: "nat startup" where
  "port_taken =
     \<lparr>exporter_Start = (\<lambda>m ns k interval b. b),
      net_Listen = (\<lambda>network address b. (Some (Error ''bind: address already in use''), b)),
      prepareGRPC = (\<lambda>f b. ((Some (Server ''grpc''), None), b)),
      prepareHTTP = (\<lambda>address ns port t1 t2 t3 t4 b. ((Some (Server ''http''), None), b))\<rparr>"

definition ssh_client :: Conn where
  "ssh_client = \<lparr>leading = ''SSH-2.0-OpenSSH_8.9'', header_fields = []\<rparr>"

section \<open>Properties of the handlers\<close>

lemma world0_metricsOptions: "metricsOptions (gateway world0) = MetricOptions 0"
  by (simp add: world0_def NewFxGateway_def)

lemma world0_no_series: "metrics world0 m = no_series"
  by (simp add: world0_def)

lemma no_series_simps:
  "invocation_counter no_series k = 0"
  "duration_histogram no_series n = []"
  "replica_gauge no_series n = 0"
  by (simp_all add: no_series_def)

lemma echo_hi_simps: "Service echo_hi = ''echo''" "Input echo_hi = ''hi''"
  by (simp_all add: echo_hi_def)

subsection \<open>HealthCheck\<close>

text \<open>
  C4. HealthCheck returns the fixed reply "OK" with no error for every context, request,
  collaborator behaviour and world, and leaves the world as it found it: it calls nothing
  outside the process, so its answer cannot depend on the backend being reachable.
\<close>

theorem HealthCheck_fixed_OK:
  "fst (HealthCheck E c s w) = (Some \<lparr>Msg = ''OK''\<rparr>, None) \<and> snd (HealthCheck E c s w) = w"
  by (simp add: HealthCheck_def)

subsection \<open>Invoke\<close>

text \<open>
  C3. When the sidecar invocation succeeds, Invoke replies with the sidecar's output
  unchanged and no error, and the registry after the call is the registry before it with
  one notification applied: the name of the invoked function, the time that passed between
  the two clock readings around the call, and the label "OK". So the "OK" counter of that
  function goes up by one, its histogram gains that one duration, and no other counter
  moves.
\<close>

theorem Invoke_success_reply_and_notify:
  assumes "service_Invoke E (Service s) (FunctionNamespace (conf (gateway w)))
             (FxWatcherPort (conf (gateway w))) (Input s) (InvokeTimeout (conf (gateway w)))
             (backend w) = ((output, None), b')"
  shows "fst (Invoke E c s w) = (Some \<lparr>Msg = output\<rparr>, None) \<and>
         metrics (snd (Invoke E c s w)) =
           Notify (metricsOptions (gateway w)) (Service s)
             (time_Now E b' - time_Now E (backend w)) ''OK'' (metrics w) \<and>
         invocation_counter (metrics (snd (Invoke E c s w)) (metricsOptions (gateway w)))
             (Service s, ''OK'') =
           invocation_counter (metrics w (metricsOptions (gateway w))) (Service s, ''OK'') + 1 \<and>
         duration_histogram (metrics (snd (Invoke E c s w)) (metricsOptions (gateway w)))
             (Service s) =
           duration_histogram (metrics w (metricsOptions (gateway w))) (Service s)
             @ [time_Now E b' - time_Now E (backend w)] \<and>
         ((n, l) \<noteq> (Service s, ''OK'') \<longrightarrow>
            invocation_counter (metrics (snd (Invoke E c s w)) m) (n, l) =
              invocation_counter (metrics w m) (n, l))"
  using assms by (simp add: Invoke_def Let_def Notify_def)

theorem Invoke_success_reply_and_notify_witness:
  "service_Invoke cluster_up (Service echo_hi) (FunctionNamespace (conf (gateway world0)))
     (FxWatcherPort (conf (gateway world0))) (Input echo_hi) (InvokeTimeout (conf (gateway world0)))
     (backend world0) = ((''hi'', None), 7000000) \<and>
   fst (Invoke cluster_up ctx0 echo_hi world0) = (Some \<lparr>Msg = ''hi''\<rparr>, None) \<and>
   invocation_counter (metrics (snd (Invoke cluster_up ctx0 echo_hi world0)) (MetricOptions 0))
     (''echo'', ''OK'') = 1 \<and>
   duration_histogram (metrics (snd (Invoke cluster_up ctx0 echo_hi world0)) (MetricOptions 0))
     ''echo'' = [7000000] \<and>
   invocation_counter (metrics (snd (Invoke cluster_up ctx0 echo_hi world0)) (MetricOptions 0))
     (''echo'', ''failure'') = 0"
proof -
  have h: "service_Invoke cluster_up (Service echo_hi) (FunctionNamespace (conf (gateway world0)))
     (FxWatcherPort (conf (gateway world0))) (Input echo_hi) (InvokeTimeout (conf (gateway world0)))
     (backend world0) = ((''hi'', None), 7000000)"
    by (simp add: cluster_up_def echo_hi_def world0_def)
  have clock: "time_Now cluster_up 7000000 - time_Now cluster_up (backend world0) = 7000000"
    by (simp add: cluster_up_def world0_def)
  show ?thesis
    using h Invoke_success_reply_and_notify [OF h, of ctx0 "''echo''" "''failure''" "MetricOptions 0"]
    by (simp add: clock world0_metricsOptions world0_no_series no_series_simps echo_hi_simps Notify_def)
qed

text \<open>
  C1, at a failing call. The claim has every failed invocation counted once under a
  failure label and its duration recorded before the error goes back to the caller, and
  the comment above the call of \<open>Notify\<close> in the source has the count raised and the
  time collected on every invocation. The handler does neither on the failing path: with
  the sidecar of \<open>echo\<close> out of reach, Invoke returns the deadline error and the registry
  is what it was, so no counter of \<open>echo\<close> has moved and no duration has been recorded.
\<close>

theorem Invoke_failure_not_recorded:
  "fst (Invoke cluster_down ctx0 echo_hi world0) = (None, Some (Error ''context deadline exceeded'')) \<and>
   metrics (snd (Invoke cluster_down ctx0 echo_hi world0)) = metrics world0 \<and>
   invocation_counter (metrics (snd (Invoke cluster_down ctx0 echo_hi world0)) (MetricOptions 0))
     (''echo'', ''failure'') = 0 \<and>
   duration_histogram (metrics (snd (Invoke cluster_down ctx0 echo_hi world0)) (MetricOptions 0))
     ''echo'' = []"
  by (simp add: Invoke_def Let_def cluster_down_def echo_hi_def world0_def no_series_def)

subsection \<open>The lifecycle operations\<close>

text \<open>
  C6. Deploy, Delete, Update and ReplicaUpdate each return what the backend call decides:
  when it returns no error, the reply is the message "OK" and the error is nil; when it
  returns an error, the reply is nil and the error is that error. There is no third shape:
  a reply never travels together with an error.
\<close>

theorem lifecycle_OK_or_error:
  "fst (Deploy E c s w) =
     (case fst (service_Deploy E s (kubeClient (gateway w))
                  \<lparr>DeployHandlerConfig.EnableHttpProbe = EnableHttpProbe (conf (gateway w)),
                   DeployHandlerConfig.ImagePullPolicy = ImagePullPolicy (conf (gateway w)),
                   DeployHandlerConfig.FunctionNamespace = FunctionNamespace (conf (gateway w)),
                   DeployHandlerConfig.FxWatcherPort = FxWatcherPort (conf (gateway w)),
                   DeployHandlerConfig.SecretMountPath = SecretMountPath (conf (gateway w))\<rparr>
                  (backend w)) of
        None \<Rightarrow> (Some \<lparr>Msg = ''OK''\<rparr>, None)
      | Some e \<Rightarrow> (None, Some e)) \<and>
   fst (Delete E c d w) =
     (case fst (service_Delete E (DeleteFunctionRequest.FunctionName d)
                  (FunctionNamespace (conf (gateway w))) (kubeClient (gateway w)) (backend w)) of
        None \<Rightarrow> (Some \<lparr>Msg = ''OK''\<rparr>, None)
      | Some e \<Rightarrow> (None, Some e)) \<and>
   fst (Update E c s w) =
     (case fst (service_Update E (FunctionNamespace (conf (gateway w))) s (kubeClient (gateway w))
                  (SecretMountPath (conf (gateway w))) (backend w)) of
        None \<Rightarrow> (Some \<lparr>Msg = ''OK''\<rparr>, None)
      | Some e \<Rightarrow> (None, Some e)) \<and>
   fst (ReplicaUpdate E c r w) =
     (case fst (service_ReplicaUpdate E (FunctionNamespace (conf (gateway w))) r
                  (kubeClient (gateway w)) (backend w)) of
        None \<Rightarrow> (Some \<lparr>Msg = ''OK''\<rparr>, None)
      | Some e \<Rightarrow> (None, Some e))"
proof -
  have "fst (Deploy E c s w) =
     (case fst (service_Deploy E s (kubeClient (gateway w))
                  \<lparr>DeployHandlerConfig.EnableHttpProbe = EnableHttpProbe (conf (gateway w)),
                   DeployHandlerConfig.ImagePullPolicy = ImagePullPolicy (conf (gateway w)),
                   DeployHandlerConfig.FunctionNamespace = FunctionNamespace (conf (gateway w)),
                   DeployHandlerConfig.FxWatcherPort = FxWatcherPort (conf (gateway w)),
                   DeployHandlerConfig.SecretMountPath = SecretMountPath (conf (gateway w))\<rparr>
                  (backend w)) of
        None \<Rightarrow> (Some \<lparr>Msg = ''OK''\<rparr>, None)
      | Some e \<Rightarrow> (None, Some e))"
    by (simp add: Deploy_def Let_def split: prod.splits option.splits)
  moreover have "fst (Delete E c d w) =
     (case fst (service_Delete E (DeleteFunctionRequest.FunctionName d)
                  (FunctionNamespace (conf (gateway w))) (kubeClient (gateway w)) (backend w)) of
        None \<Rightarrow> (Some \<lparr>Msg = ''OK''\<rparr>, None)
      | Some e \<Rightarrow> (None, Some e))"
    by (simp add: Delete_def Let_def split: prod.splits option.splits)
  moreover have "fst (Update E c s w) =
     (case fst (service_Update E (FunctionNamespace (conf (gateway w))) s (kubeClient (gateway w))
                  (SecretMountPath (conf (gateway w))) (backend w)) of
        None \<Rightarrow> (Some \<lparr>Msg = ''OK''\<rparr>, None)
      | Some e \<Rightarrow> (None, Some e))"
    by (simp add: Update_def Let_def split: prod.splits option.splits)
  moreover have "fst (ReplicaUpdate E c r w) =
     (case fst (service_ReplicaUpdate E (FunctionNamespace (conf (gateway w))) r
                  (kubeClient (gateway w)) (backend w)) of
        None \<Rightarrow> (Some \<lparr>Msg = ''OK''\<rparr>, None)
      | Some e \<Rightarrow> (None, Some e))"
    by (simp add: ReplicaUpdate_def Let_def split: prod.splits option.splits)
  ultimately show ?thesis by blast
qed

text \<open>
  C8. Delete leaves the whole registry as it found it, whatever the backend answers: no
  counter, no histogram and no gauge of any function differs after the call.
\<close>

theorem Delete_leaves_registry:
  "metrics (snd (Delete E c s w)) = metrics w"
  by (simp add: Delete_def Let_def split: prod.splits)

subsection \<open>The gateway struct\<close>

lemma handle_gateway: "gateway (handle E r w) = gateway w"
proof (cases r)
  case (ListReq c s)
  then show ?thesis by (simp add: List_def Let_def split: prod.splits)
next
  case (GetMetaReq c s)
  then show ?thesis by (simp add: GetMeta_def Let_def split: prod.splits)
qed (simp_all add: Invoke_def Deploy_def Delete_def Update_def GetLog_def ReplicaUpdate_def
       Info_def HealthCheck_def Let_def split: prod.splits)

lemma handle_all_gateway: "gateway (handle_all E rs w) = gateway w"
  by (induction rs arbitrary: w) (simp_all add: handle_gateway)

text \<open>
  C9. No handler assigns a field of the gateway struct: after any sequence of requests,
  each served by its handler, the struct is equal to the one the sequence started from,
  field by field (\<open>conf\<close>, \<open>kubeClient\<close>, \<open>metricsOptions\<close>, \<open>metricsFetcher\<close> and the two
  server pointers). For a gateway built by \<open>NewFxGateway\<close>, the configuration every
  request observes is the one passed to the constructor.
\<close>

theorem gateway_read_only:
  "gateway (handle_all E rs w) = gateway w \<and>
   conf (gateway (handle_all E rs
          \<lparr>gateway = NewFxGateway built cfg k, metrics = reg, backend = b\<rparr>)) = cfg"
  by (simp add: handle_all_gateway NewFxGateway_def)

subsection \<open>Reply and error\<close>

lemma exactly_one_reply [simp]: "exactly_one (Some x, None)"
  by (simp add: exactly_one_def)

lemma exactly_one_error [simp]: "err \<noteq> None \<Longrightarrow> exactly_one (None, err)"
  by (simp add: exactly_one_def)



subsection \<open>List and GetMeta: enrichment\<close>

lemma mixIn_without_metrics:
  "mixIn E fn q b = (fn', b') \<Longrightarrow> without_metrics fn' = without_metrics fn"
  by (auto simp: mixIn_def without_metrics_def Let_def split: prod.splits if_splits)

lemma AddMetricsFunctions_without_metrics:
  "AddMetricsFunctions E fs q b = (fns, b') \<Longrightarrow>
   map without_metrics fns = map without_metrics fs"
proof (induction fs arbitrary: b fns b')
  case Nil
  then show ?case by simp
next
  case (Cons fn fs)
  obtain fn' b1 where m: "mixIn E fn q b = (fn', b1)"
    by (metis surj_pair)
  obtain rest b2 where r: "AddMetricsFunctions E fs q b1 = (rest, b2)"
    by (metis surj_pair)
  from Cons.prems m r have "fns = fn' # rest"
    by simp
  with Cons.IH [OF r] mixIn_without_metrics [OF m] show ?case
    by simp
qed

text \<open>
  C5. Whatever the metrics backend answers, and so also when fetching fails: once the
  backend has returned the functions without error, List returns no error and a list that
  holds the same functions in the same order, equal to the backend's but for the
  enrichment written into them; once the backend has returned a function without error,
  GetMeta returns no error and that function, equal to the backend's but for the
  enrichment.
\<close>

theorem enrichment_keeps_every_function:
  "(fst (service_List E (FunctionNamespace (conf (gateway w))) (kubeClient (gateway w)) (backend w))
      = (functions, None) \<longrightarrow>
    (\<exists>fns. fst (List E c s w) = (Some \<lparr>Functions = fns\<rparr>, None) \<and>
           length fns = length functions \<and>
           map without_metrics fns = map without_metrics functions)) \<and>
   (fst (service_GetMeta E (FunctionRequest.FunctionName g) (FunctionNamespace (conf (gateway w)))
           (kubeClient (gateway w)) (backend w))
      = (Some fn, None) \<longrightarrow>
    (\<exists>fn'. fst (GetMeta E c g w) = (Some fn', None) \<and>
           without_metrics fn' = without_metrics fn))"
proof (intro conjI impI)
  assume l: "fst (service_List E (FunctionNamespace (conf (gateway w))) (kubeClient (gateway w))
                    (backend w)) = (functions, None)"
  obtain b1 where l': "service_List E (FunctionNamespace (conf (gateway w))) (kubeClient (gateway w))
                    (backend w) = ((functions, None), b1)"
    using l by (metis prod.collapse)
  obtain fns b2 where a: "AddMetricsFunctions E functions (metricsFetcher (gateway w)) b1 = (fns, b2)"
    by (metis surj_pair)
  have same: "map without_metrics fns = map without_metrics functions"
    by (rule AddMetricsFunctions_without_metrics [OF a])
  then have "length fns = length functions"
    by (metis length_map)
  moreover have "fst (List E c s w) = (Some \<lparr>Functions = fns\<rparr>, None)"
    using l' a by (simp add: List_def Let_def)
  ultimately show "\<exists>fns. fst (List E c s w) = (Some \<lparr>Functions = fns\<rparr>, None) \<and>
           length fns = length functions \<and>
           map without_metrics fns = map without_metrics functions"
    using same by blast
next
  assume m: "fst (service_GetMeta E (FunctionRequest.FunctionName g)
                    (FunctionNamespace (conf (gateway w))) (kubeClient (gateway w)) (backend w))
             = (Some fn, None)"
  obtain b1 where m': "service_GetMeta E (FunctionRequest.FunctionName g)
                    (FunctionNamespace (conf (gateway w))) (kubeClient (gateway w)) (backend w)
             = ((Some fn, None), b1)"
    using m by (metis prod.collapse)
  obtain fn' b2 where a: "mixIn E fn (metricsFetcher (gateway w)) b1 = (fn', b2)"
    by (metis surj_pair)
  have "fst (GetMeta E c g w) = (Some fn', None)"
    using m' a by (simp add: GetMeta_def Let_def)
  with mixIn_without_metrics [OF a]
  show "\<exists>fn'. fst (GetMeta E c g w) = (Some fn', None) \<and> without_metrics fn' = without_metrics fn"
    by blast
qed

theorem enrichment_keeps_every_function_witness:
  "fst (service_List cluster_up (FunctionNamespace (conf (gateway world0))) (kubeClient (gateway world0))
          (backend world0)) = ([fn_echo, fn_resize], None) \<and>
   fst (service_GetMeta cluster_up (FunctionRequest.FunctionName get_echo)
          (FunctionNamespace (conf (gateway world0))) (kubeClient (gateway world0)) (backend world0))
     = (Some fn_echo, None) \<and>
   (\<exists>fns. fst (List cluster_up ctx0 Empty world0) = (Some \<lparr>Functions = fns\<rparr>, None) \<and>
          length fns = length [fn_echo, fn_resize] \<and>
          map without_metrics fns = map without_metrics [fn_echo, fn_resize]) \<and>
   (\<exists>fn'. fst (GetMeta cluster_up ctx0 get_echo world0) = (Some fn', None) \<and>
          without_metrics fn' = without_metrics fn_echo)"
proof -
  have h1: "fst (service_List cluster_up (FunctionNamespace (conf (gateway world0)))
                   (kubeClient (gateway world0)) (backend world0)) = ([fn_echo, fn_resize], None)"
    by (simp add: cluster_up_def)
  have h2: "fst (service_GetMeta cluster_up (FunctionRequest.FunctionName get_echo)
          (FunctionNamespace (conf (gateway world0))) (kubeClient (gateway world0)) (backend world0))
     = (Some fn_echo, None)"
    by (simp add: cluster_up_def)
  show ?thesis
    using h1 h2
      enrichment_keeps_every_function [of cluster_up world0 "[fn_echo, fn_resize]" ctx0 Empty
        get_echo fn_echo]
    by blast
qed

section \<open>Properties of Start\<close>

lemma Start_mux_eval:
  "Start_mux =
     (0, 1, \<lparr>sls = [(HTTP2MatchHeaderFieldPrefixSendSettings ''content-type'' ''application/grpc'', 0),
                      (HTTP1Fast, 1)]\<rparr>)"
  by (simp add: Start_mux_def cmux_New_def cmux_Match_def)

lemma Start_serving:
  "fst (Start S w) = Inr sv \<Longrightarrow>
   sv = \<lparr>tcpMux = snd (snd Start_mux), grpcL = fst Start_mux, httpL = fst (snd Start_mux)\<rparr>"
  by (auto simp: Start_def Let_def Start_mux_eval split: prod.splits if_splits)

lemma main_after_Start_exits: "\<exists>n. main_after_Start st = Exited n"
  by (cases st) simp_all

lemma serve_error_exits: "(l, Some e) \<in> set evs \<Longrightarrow> \<exists>n. serve Running evs = Exited n"
proof (induction evs)
  case Nil
  then show ?case by simp
next
  case (Cons ev evs)
  obtain l' err where ev: "ev = (l', err)"
    by (cases ev)
  show ?case
  proof (cases "serve_returns l' err")
    case (Some st)
    with ev show ?thesis by (simp add: main_after_Start_exits)
  next
    case None
    then have "err = None"
      by (cases l') (simp_all split: if_splits)
    with Cons.prems ev have "(l, Some e) \<in> set evs"
      by auto
    with Cons.IH None ev show ?thesis by simp
  qed
qed

subsection \<open>The demultiplexer\<close>

text \<open>
  C2, as stated, fails in its last part: a connection that opens with an SSH banner is
  accepted by neither matcher and is handed to neither sub-listener.
\<close>

theorem unmatched_connection_not_routed:
  "\<not> HTTP2MatchHeaderFieldPrefixSendSettings ''content-type'' ''application/grpc'' ssh_client \<and>
   \<not> HTTP1Fast ssh_client \<and>
   cmux_route (snd (snd Start_mux)) ssh_client = None"
  by (simp add: Start_mux_eval cmux_route_def HTTP2MatchHeaderFieldPrefixSendSettings_def HTTP1Fast_def
      hasPrefix_def http2_preface_def defaultHTTPMethods_def ssh_client_def)

text \<open>
  C2, amended. Once Start has set up its listeners, the multiplexer holds two rules in
  this order: the gRPC match (a header field \<open>content-type\<close> whose value starts with
  \<open>application/grpc\<close>) with the gRPC listener, then the HTTP/1 match with the HTTP
  listener. A connection the gRPC match accepts goes to the gRPC listener; only a
  connection it rejects is tried against the HTTP/1 match and, if accepted, goes to the
  HTTP listener; a connection both reject goes to no listener. The two listeners are
  different, so a connection is routed to at most one of them.
\<close>

theorem Start_mux_order:
  assumes "fst (Start S w) = Inr sv"
  shows "sls (tcpMux sv) =
           [(HTTP2MatchHeaderFieldPrefixSendSettings ''content-type'' ''application/grpc'', grpcL sv),
            (HTTP1Fast, httpL sv)] \<and>
         grpcL sv \<noteq> httpL sv \<and>
         cmux_route (tcpMux sv) conn =
           (if HTTP2MatchHeaderFieldPrefixSendSettings ''content-type'' ''application/grpc'' conn
            then Some (grpcL sv)
            else if HTTP1Fast conn then Some (httpL sv)
            else None)"
  using Start_serving [OF assms] by (simp add: Start_mux_eval cmux_route_def)

theorem Start_mux_order_witness:
  "fst (Start port_free world0) =
     Inr \<lparr>tcpMux = snd (snd Start_mux), grpcL = 0, httpL = 1\<rparr> \<and>
   cmux_route (snd (snd Start_mux))
     \<lparr>leading = http2_preface, header_fields = [('':method'', ''POST''), (''content-type'', ''application/grpc+proto'')]\<rparr>
     = Some 0 \<and>
   cmux_route (snd (snd Start_mux)) \<lparr>leading = ''GET /healthz HTTP/1.1'', header_fields = []\<rparr>
     = Some 1"
proof -
  have h: "fst (Start port_free world0) =
             Inr \<lparr>tcpMux = snd (snd Start_mux), grpcL = 0, httpL = 1\<rparr>"
    by (simp add: Start_def port_free_def Let_def Start_mux_eval)
  have g: "HTTP2MatchHeaderFieldPrefixSendSettings ''content-type'' ''application/grpc''
             \<lparr>leading = http2_preface,
              header_fields = [('':method'', ''POST''), (''content-type'', ''application/grpc+proto'')]\<rparr>"
    by (simp add: HTTP2MatchHeaderFieldPrefixSendSettings_def hasPrefix_def)
  have n: "\<not> HTTP2MatchHeaderFieldPrefixSendSettings ''content-type'' ''application/grpc''
             \<lparr>leading = ''GET /healthz HTTP/1.1'', header_fields = []\<rparr>"
    by (simp add: HTTP2MatchHeaderFieldPrefixSendSettings_def)
  have p: "HTTP1Fast \<lparr>leading = ''GET /healthz HTTP/1.1'', header_fields = []\<rparr>"
    by (simp add: HTTP1Fast_def hasPrefix_def defaultHTTPMethods_def)
  show ?thesis
    using h g n p
      Start_mux_order [OF h, of "\<lparr>leading = http2_preface,
              header_fields = [('':method'', ''POST''), (''content-type'', ''application/grpc+proto'')]\<rparr>"]
      Start_mux_order [OF h, of "\<lparr>leading = ''GET /healthz HTTP/1.1'', header_fields = []\<rparr>"]
    by simp
qed

subsection \<open>The serve loops\<close>

text \<open>
  C7. Once the listeners are set up, if any of the three serve calls returns an error
  (the gRPC serve loop, the HTTP serve loop or the accept loop of the multiplexer) the
  process has exited by the end of the run, whatever else returned before or after. And
  when \<open>net.Listen\<close> fails, Start panics with that error and the process exits at once.
\<close>

theorem serve_error_ends_process:
  "(fst (Start S w) = Inr sv \<and> (l, Some e) \<in> set evs \<longrightarrow> (\<exists>n. run_Start S w evs = Exited n)) \<and>
   (fst (net_Listen S' ''tcp'' (CHR '':'' # Sprintf_d (TCPPort (conf (gateway w'))))
           (exporter_Start S' (metricsOptions (gateway w')) (FunctionNamespace (conf (gateway w')))
              (kubeClient (gateway w')) (Second * 5) (backend w'))) = Some e' \<longrightarrow>
    fst (Start S' w') = Inl (Panicked e') \<and> run_Start S' w' evs' = Exited 2)"
proof (intro conjI impI)
  assume a: "fst (Start S w) = Inr sv \<and> (l, Some e) \<in> set evs"
  then have "\<exists>n. serve Running evs = Exited n"
    by (blast intro: serve_error_exits)
  with a show "\<exists>n. run_Start S w evs = Exited n"
    by (simp add: run_Start_def)
next
  assume h: "fst (net_Listen S' ''tcp'' (CHR '':'' # Sprintf_d (TCPPort (conf (gateway w'))))
           (exporter_Start S' (metricsOptions (gateway w')) (FunctionNamespace (conf (gateway w')))
              (kubeClient (gateway w')) (Second * 5) (backend w'))) = Some e'"
  obtain b1 where "net_Listen S' ''tcp'' (CHR '':'' # Sprintf_d (TCPPort (conf (gateway w'))))
           (exporter_Start S' (metricsOptions (gateway w')) (FunctionNamespace (conf (gateway w')))
              (kubeClient (gateway w')) (Second * 5) (backend w')) = (Some e', b1)"
    using h by (metis prod.collapse)
  then show p: "fst (Start S' w') = Inl (Panicked e')"
    by (simp add: Start_def Let_def)
  then show "run_Start S' w' evs' = Exited 2"
    by (simp add: run_Start_def)
qed

theorem serve_error_ends_process_witness:
  "fst (Start port_free world0) = Inr \<lparr>tcpMux = snd (snd Start_mux), grpcL = 0, httpL = 1\<rparr> \<and>
   (httpServer_Serve, Some (Error ''accept: too many open files''))
     \<in> set [(grpcServer_Serve, None), (httpServer_Serve, Some (Error ''accept: too many open files''))] \<and>
   (\<exists>n. run_Start port_free world0
           [(grpcServer_Serve, None), (httpServer_Serve, Some (Error ''accept: too many open files''))]
         = Exited n) \<and>
   fst (net_Listen port_taken ''tcp'' (CHR '':'' # Sprintf_d (TCPPort (conf (gateway world0))))
          (exporter_Start port_taken (metricsOptions (gateway world0))
             (FunctionNamespace (conf (gateway world0))) (kubeClient (gateway world0)) (Second * 5)
             (backend world0))) = Some (Error ''bind: address already in use'') \<and>
   fst (Start port_taken world0) = Inl (Panicked (Error ''bind: address already in use'')) \<and>
   run_Start port_taken world0 [] = Exited 2"
proof -
  have h1: "fst (Start port_free world0) = Inr \<lparr>tcpMux = snd (snd Start_mux), grpcL = 0, httpL = 1\<rparr>"
    by (simp add: Start_def port_free_def Let_def Start_mux_eval)
  have h2: "(httpServer_Serve, Some (Error ''accept: too many open files''))
     \<in> set [(grpcServer_Serve, None), (httpServer_Serve, Some (Error ''accept: too many open files''))]"
    by simp
  have h3: "fst (net_Listen port_taken ''tcp'' (CHR '':'' # Sprintf_d (TCPPort (conf (gateway world0))))
          (exporter_Start port_taken (metricsOptions (gateway world0))
             (FunctionNamespace (conf (gateway world0))) (kubeClient (gateway world0)) (Second * 5)
             (backend world0))) = Some (Error ''bind: address already in use'')"
    by (simp add: port_taken_def)
  show ?thesis
    using h1 h2 h3
      serve_error_ends_process [of port_free world0
        "\<lparr>tcpMux = snd (snd Start_mux), grpcL = 0, httpL = 1\<rparr>"
        httpServer_Serve "Error ''accept: too many open files''"
        "[(grpcServer_Serve, None), (httpServer_Serve, Some (Error ''accept: too many open files''))]"
        port_taken world0 "Error ''bind: address already in use''" "[]"]
    by blast
qed

end
